theory Spec2Isabelle
  imports Complex_Main "HOL-Library.AList"
begin

section \<open>Python values used by ACEEI.py\<close>

text \<open>
  The exceptions the code of \<^verbatim>\<open>fairpyx/algorithms/ACEEI.py\<close> can raise. \<open>SolverError\<close>
  stands for a failure raised inside \<^verbatim>\<open>lp.optimize_model\<close>, whose module is not part of
  the sources.
\<close>

datatype error =
    IndexError
  | KeyError
  | TypeError
  | AttributeError
  | ZeroDivisionError
  | UnboundLocalError
  | SolverError

text \<open>
  Agent and item names are dictionary keys: strings (\<^verbatim>\<open>"Alice"\<close>) or integers.
\<close>

datatype key = IntKey int | StrKey string

text \<open>
  Prices, budgets and the table of candidate budgets are passed around either as Python
  lists or as dictionaries (an insertion-ordered association list); the code subscripts
  them, asks for \<^verbatim>\<open>.values()\<close> and takes \<^verbatim>\<open>len\<close>. Numbers (Python ints and
  floats) are idealised as exact rationals.
\<close>

datatype 'v container = PyList "'v list" | PyDict "(key \<times> 'v) list"

definition index_list :: "'v list \<Rightarrow> nat \<Rightarrow> error + 'v" where
  "index_list xs i = (if i < length xs then Inr (xs ! i) else Inl IndexError)"

fun subscript :: "'v container \<Rightarrow> key \<Rightarrow> error + 'v" where
  "subscript (PyList xs) (IntKey i) =
     (if 0 \<le> i then index_list xs (nat i)
      else if - int (length xs) \<le> i then index_list xs (nat (int (length xs) + i))
      else Inl IndexError)"
| "subscript (PyList xs) (StrKey s) = Inl TypeError"
| "subscript (PyDict d) k = (case map_of d k of None \<Rightarrow> Inl KeyError | Some v \<Rightarrow> Inr v)"

fun values_of :: "'v container \<Rightarrow> error + 'v list" where
  "values_of (PyList xs) = Inl AttributeError"
| "values_of (PyDict d) = Inr (map snd d)"

fun len :: "'v container \<Rightarrow> nat" where
  "len (PyList xs) = length xs"
| "len (PyDict d) = length d"

section \<open>The allocation instance\<close>

text \<open>
  Modelled from the spec: the class \<^verbatim>\<open>Instance\<close> is imported from \<^verbatim>\<open>fairpyx\<close> and is
  not among the sources. It is a record of the attributes ACEEI.py reads.
  \<^verbatim>\<open>agent_capacity\<close> and \<^verbatim>\<open>item_capacity\<close> are the accessor functions of the instance
  contract (\<^verbatim>\<open>agent_capacity(agent)\<close>, \<^verbatim>\<open>item_capacity(item)\<close>): the code calls the
  first, \<^verbatim>\<open>instance.agent_capacity(student)\<close>. \<^verbatim>\<open>instance.agents\<close> is iterated,
  \<^verbatim>\<open>num_of_agents\<close> and \<^verbatim>\<open>num_of_items\<close> are numbers, and the underscore attributes
  are the dictionaries the instance was built from.
\<close>

record Instance =
  agents :: "key list"
  agent_capacity :: "key \<Rightarrow> int"
  num_of_agents :: nat
  num_of_items :: nat
  item_capacity :: "key \<Rightarrow> int"
  agent_capacities' :: "(key \<times> int) list"
  item_capacities' :: "(key \<times> int) list"
  valuations' :: "(key \<times> (key \<times> rat) list) list"

datatype EFTBStatus = NO_EF_TB | EF_TB | CONTESTED_EF_TB

text \<open>
  \<^verbatim>\<open>f[i]\<close> on a function object: Python functions and bound methods have no
  \<^verbatim>\<open>__getitem__\<close>, so the subscript raises \<^verbatim>\<open>TypeError\<close> whatever \<open>f\<close> and \<open>i\<close> are.
\<close>

definition subscript_function :: "('k \<Rightarrow> 'v) \<Rightarrow> nat \<Rightarrow> error + 'v" where
  "subscript_function f i = Inl TypeError"

section \<open>Excess demand\<close>

text \<open>
  \<^verbatim>\<open>for student in range(instance.num_of_agents): sum += allocation[student][course]\<close>
\<close>

fun column_sum :: "int list list \<Rightarrow> nat \<Rightarrow> nat list \<Rightarrow> int \<Rightarrow> error + int" where
  "column_sum allocation course [] acc = Inr acc"
| "column_sum allocation course (student # rest) acc =
     (case index_list allocation student of
        Inl e \<Rightarrow> Inl e
      | Inr row \<Rightarrow>
          (case index_list row course of
             Inl e \<Rightarrow> Inl e
           | Inr v \<Rightarrow> column_sum allocation course rest (acc + v)))"

text \<open>
  \<^verbatim>\<open>for course in range(instance.num_of_items): ...; z[course] = sum - instance.item_capacity[course]\<close>
\<close>

fun courses_loop :: "Instance \<Rightarrow> int list list \<Rightarrow> nat list \<Rightarrow> int list \<Rightarrow> error + int list" where
  "courses_loop inst allocation [] z = Inr z"
| "courses_loop inst allocation (course # rest) z =
     (case column_sum allocation course [0..<num_of_agents inst] 0 of
        Inl e \<Rightarrow> Inl e
      | Inr s \<Rightarrow>
          (case subscript_function (item_capacity inst) course of
             Inl e \<Rightarrow> Inl e
           | Inr c \<Rightarrow> courses_loop inst allocation rest (z[course := s - c])))"

definition excess_demand :: "Instance \<Rightarrow> 'b \<Rightarrow> 'p \<Rightarrow> int list list \<Rightarrow> error + int list" where
  "excess_demand inst initial_budgets prices allocation =
     courses_loop inst allocation [0..<num_of_items inst] (replicate (num_of_items inst) 0)"

text \<open>
  \<^verbatim>\<open>[max(0, z[i]) if prices[i] == 0 else z[i] for i in range(len(z))]\<close>
\<close>

fun clip_loop :: "rat container \<Rightarrow> int list \<Rightarrow> nat list \<Rightarrow> error + int list" where
  "clip_loop prices z [] = Inr []"
| "clip_loop prices z (i # rest) =
     (case subscript prices (IntKey (int i)) of
        Inl e \<Rightarrow> Inl e
      | Inr p \<Rightarrow>
          (case clip_loop prices z rest of
             Inl e \<Rightarrow> Inl e
           | Inr cs \<Rightarrow> Inr ((if p = 0 then max 0 (z ! i) else z ! i) # cs)))"

definition clipped_excess_demand ::
  "Instance \<Rightarrow> 'b \<Rightarrow> rat container \<Rightarrow> int list list \<Rightarrow> error + int list" where
  "clipped_excess_demand inst initial_budgets prices allocation =
     (case excess_demand inst initial_budgets prices allocation of
        Inl e \<Rightarrow> Inl e
      | Inr z \<Rightarrow> clip_loop prices z [0..<length z])"

section \<open>Candidate budgets\<close>

text \<open>\<^verbatim>\<open>itertools.combinations(xs, r)\<close>: the \<open>r\<close>-element selections by position, in lexicographic order.\<close>

fun combinations :: "'a list \<Rightarrow> nat \<Rightarrow> 'a list list" where
  "combinations xs 0 = [[]]"
| "combinations [] (Suc r) = []"
| "combinations (x # xs) (Suc r) = map ((#) x) (combinations xs r) @ combinations xs (Suc r)"

text \<open>\<^verbatim>\<open>range(1, capacity + 1)\<close>\<close>

definition range1 :: "int \<Rightarrow> nat list" where
  "range1 capacity = [1..<nat (capacity + 1)]"

text \<open>
  \<^verbatim>\<open>for r in range(1, capacity + 1): for combo in combinations(prices.values(), r): combinations_sum_set.add(sum(combo))\<close>
\<close>

fun add_combination_sums :: "rat container \<Rightarrow> nat list \<Rightarrow> rat set \<Rightarrow> error + rat set" where
  "add_combination_sums prices [] combinations_sum_set = Inr combinations_sum_set"
| "add_combination_sums prices (r # rs) combinations_sum_set =
     (case values_of prices of
        Inl e \<Rightarrow> Inl e
      | Inr vs \<Rightarrow>
          add_combination_sums prices rs
            (combinations_sum_set \<union> set (map sum_list (combinations vs r))))"

text \<open>
  The walk over \<^verbatim>\<open>sorted(combinations_sum_set)\<close> that fills \<^verbatim>\<open>row_student\<close>; the second
  equation's first branch is the \<^verbatim>\<open>break\<close>.
\<close>

fun row_loop :: "rat \<Rightarrow> rat \<Rightarrow> rat \<Rightarrow> rat list \<Rightarrow> rat list \<Rightarrow> rat list" where
  "row_loop max_k max_budget min_budget row_student [] = row_student"
| "row_loop max_k max_budget min_budget row_student (combination_sum # rest) =
     (if of_nat (length row_student) + 1 > max_k then row_student
      else if min_budget < combination_sum \<and> combination_sum \<le> max_budget
        then row_loop max_k max_budget combination_sum (row_student @ [combination_sum]) rest
        else row_loop max_k max_budget min_budget row_student rest)"

text \<open>
  The loop over \<^verbatim>\<open>instance.agents\<close>. The set of combination sums is created once, before
  the loop, and is carried from one student to the next.
\<close>

fun students_loop ::
  "Instance \<Rightarrow> rat container \<Rightarrow> rat \<Rightarrow> rat \<Rightarrow> rat container \<Rightarrow> key list \<Rightarrow> rat set \<Rightarrow>
   (key \<times> rat list) list \<Rightarrow> error + (key \<times> rat list) list" where
  "students_loop inst initial_budgets epsilon max_k prices [] combinations_sum_set different_budgets =
     Inr different_budgets"
| "students_loop inst initial_budgets epsilon max_k prices (student # rest) combinations_sum_set
     different_budgets =
     (case add_combination_sums prices (range1 (agent_capacity inst student)) combinations_sum_set of
        Inl e \<Rightarrow> Inl e
      | Inr sum_set \<Rightarrow>
          (case subscript initial_budgets student of
             Inl e \<Rightarrow> Inl e
           | Inr b \<Rightarrow>
               students_loop inst initial_budgets epsilon max_k prices rest sum_set
                 (AList.update student
                    (row_loop max_k (b + epsilon) (b - epsilon) [b - epsilon]
                       (sorted_list_of_set sum_set))
                    different_budgets)))"

definition find_different_budgets ::
  "Instance \<Rightarrow> rat container \<Rightarrow> rat \<Rightarrow> rat \<Rightarrow> rat container \<Rightarrow> error + (key \<times> rat list) list" where
  "find_different_budgets inst initial_budgets epsilon delta prices =
     (if delta = 0 then Inl ZeroDivisionError
      else students_loop inst initial_budgets epsilon (2 * epsilon / delta + 1) prices
             (agents inst) {} [])"

section \<open>Bundle of maximum utility per budget\<close>

text \<open>\<^verbatim>\<open>sum(prices[i] for i in combination)\<close>\<close>

fun sum_of_prices :: "rat container \<Rightarrow> nat list \<Rightarrow> error + rat" where
  "sum_of_prices prices [] = Inr 0"
| "sum_of_prices prices (i # rest) =
     (case subscript prices (IntKey (int i)) of
        Inl e \<Rightarrow> Inl e
      | Inr p \<Rightarrow>
          (case sum_of_prices prices rest of
             Inl e \<Rightarrow> Inl e
           | Inr s \<Rightarrow> Inr (p + s)))"

text \<open>
  The local variable \<^verbatim>\<open>utility_combination\<close> is an \<open>option\<close>: \<open>None\<close> while no statement
  has assigned it. Reading it then raises. \<^verbatim>\<open>utility_max_combination\<close> is an \<open>option\<close>
  too, \<open>None\<close> being \<^verbatim>\<open>float('-inf')\<close>.
\<close>

fun add_large_num :: "rat option \<Rightarrow> rat \<Rightarrow> error + rat option" where
  "add_large_num None large_num = Inl UnboundLocalError"
| "add_large_num (Some u) large_num = Inr (Some (u + large_num))"

fun exceeds :: "rat \<Rightarrow> rat option \<Rightarrow> bool" where
  "exceeds u None = True"
| "exceeds u (Some m) = (m < u)"

type_synonym search = "nat list option \<times> rat option \<times> rat option"

fun combination_loop ::
  "Instance \<Rightarrow> rat container \<Rightarrow> key \<Rightarrow> rat \<Rightarrow> rat \<Rightarrow> nat list list \<Rightarrow> search \<Rightarrow> error + search" where
  "combination_loop inst prices student_name large_num budget [] st = Inr st"
| "combination_loop inst prices student_name large_num budget (combination # rest)
     (max_combination, utility_max_combination, utility_combination) =
     (case sum_of_prices prices combination of
        Inl e \<Rightarrow> Inl e
      | Inr s \<Rightarrow>
          if s \<le> budget then
            (case (if int (length combination) = agent_capacity inst student_name
                   then add_large_num utility_combination large_num
                   else Inr utility_combination) of
               Inl e \<Rightarrow> Inl e
             | Inr None \<Rightarrow> Inl UnboundLocalError
             | Inr (Some u) \<Rightarrow>
                 if exceeds u utility_max_combination
                 then combination_loop inst prices student_name large_num budget rest
                        (Some combination, Some u, Some u)
                 else combination_loop inst prices student_name large_num budget rest
                        (max_combination, utility_max_combination, Some u))
          else combination_loop inst prices student_name large_num budget rest
                 (max_combination, utility_max_combination, utility_combination))"

text \<open>
  \<^verbatim>\<open>[1 if max_combination is not None and i in max_combination else 0 for i in range(len(prices))]\<close>
\<close>

definition binary_vector :: "nat list option \<Rightarrow> nat \<Rightarrow> int list" where
  "binary_vector max_combination n =
     map (\<lambda>i. case max_combination of
                 None \<Rightarrow> 0
               | Some c \<Rightarrow> if i \<in> set c then 1 else 0) [0..<n]"

text \<open>
  The loop over the budgets of one student. \<^verbatim>\<open>combination_list\<close> is extended at every
  budget and the best bundle found so far is kept from one budget to the next.
\<close>

fun budgets_loop ::
  "Instance \<Rightarrow> rat container \<Rightarrow> key \<Rightarrow> nat \<Rightarrow> rat \<Rightarrow> nat list \<Rightarrow> rat list \<Rightarrow> nat list list \<Rightarrow>
   search \<Rightarrow> int list list list \<Rightarrow> error + (rat option \<times> int list list list)" where
  "budgets_loop inst prices student_name student_idx large_num number_course [] combination_list
     st matrix_a = Inr (snd (snd st), matrix_a)"
| "budgets_loop inst prices student_name student_idx large_num number_course (budget # rest)
     combination_list st matrix_a =
     (case subscript (PyDict (agent_capacities' inst)) student_name of
        Inl e \<Rightarrow> Inl e
      | Inr capacity \<Rightarrow>
          (case combination_loop inst prices student_name large_num budget
                  (combination_list @ concat (map (combinations number_course) (range1 capacity)))
                  st of
             Inl e \<Rightarrow> Inl e
           | Inr st' \<Rightarrow>
               if student_idx < length matrix_a then
                 budgets_loop inst prices student_name student_idx large_num number_course rest
                   (combination_list @ concat (map (combinations number_course) (range1 capacity)))
                   st'
                   (matrix_a[student_idx :=
                      matrix_a ! student_idx @ [binary_vector (fst st') (len prices)]])
               else Inl IndexError))"

text \<open>\<^verbatim>\<open>for student_idx, student_name in enumerate(students_names)\<close>\<close>

fun bundle_students_loop ::
  "Instance \<Rightarrow> rat list container \<Rightarrow> rat container \<Rightarrow> nat list \<Rightarrow> (nat \<times> key) list \<Rightarrow>
   rat option \<Rightarrow> int list list list \<Rightarrow> error + int list list list" where
  "bundle_students_loop inst different_budgets prices number_course [] utility_combination
     matrix_a = Inr matrix_a"
| "bundle_students_loop inst different_budgets prices number_course
     ((student_idx, student_name) # rest) utility_combination matrix_a =
     (case subscript (PyDict (valuations' inst)) student_name of
        Inl e \<Rightarrow> Inl e
      | Inr vals \<Rightarrow>
          (case subscript different_budgets (IntKey (int student_idx)) of
             Inl e \<Rightarrow> Inl e
           | Inr budgets \<Rightarrow>
               (case budgets_loop inst prices student_name student_idx
                       (sum_list (map snd vals)) number_course budgets []
                       (None, None, utility_combination) matrix_a of
                  Inl e \<Rightarrow> Inl e
                | Inr (utility_combination', matrix_a') \<Rightarrow>
                    bundle_students_loop inst different_budgets prices number_course rest
                      utility_combination' matrix_a')))"

definition student_budget_per_bundle ::
  "rat list container \<Rightarrow> rat container \<Rightarrow> Instance \<Rightarrow> error + int list list list" where
  "student_budget_per_bundle different_budgets prices inst =
     bundle_students_loop inst different_budgets prices
       [0..<length (map fst (item_capacities' inst))]
       (enumerate 0 (map fst (agent_capacities' inst)))
       None
       (replicate (num_of_agents inst) [])"

section \<open>Budget perturbation and the price loop\<close>

text \<open>
  What a Python call evaluates to where the code only unpacks it: \<^verbatim>\<open>None\<close> or a tuple
  of four values.
\<close>

datatype ('b, 'a, 'z) pyresult = PyNone | PyTuple4 'b rat 'a 'z

text \<open>
  The module \<^verbatim>\<open>linear_program\<close> is not among the sources: \<^verbatim>\<open>lp.optimize_model\<close> is the
  parameter \<open>optimize_model\<close>, which may raise or return any value. The function calls it
  and has no \<^verbatim>\<open>return\<close> statement.
\<close>

definition find_budget_perturbation ::
  "(int list list list \<Rightarrow> Instance \<Rightarrow> rat container \<Rightarrow> EFTBStatus \<Rightarrow> rat container \<Rightarrow> error + 'r) \<Rightarrow>
   rat container \<Rightarrow> rat \<Rightarrow> rat \<Rightarrow> rat container \<Rightarrow> Instance \<Rightarrow> EFTBStatus \<Rightarrow>
   error + ('b, 'a, 'z) pyresult" where
  "find_budget_perturbation optimize_model initial_budgets epsilon delta prices inst t =
     (case find_different_budgets inst initial_budgets epsilon delta prices of
        Inl e \<Rightarrow> Inl e
      | Inr different_budgets \<Rightarrow>
          (case student_budget_per_bundle (PyDict different_budgets) prices inst of
             Inl e \<Rightarrow> Inl e
           | Inr a \<Rightarrow>
               (case optimize_model a inst prices t initial_budgets of
                  Inl e \<Rightarrow> Inl e
                | Inr r \<Rightarrow> Inr PyNone)))"

text \<open>\<^verbatim>\<open>new_budgets, norma, allocation, excess_demand = ...\<close>\<close>

fun unpack4 :: "('b, 'a, 'z) pyresult \<Rightarrow> error + ('b \<times> rat \<times> 'a \<times> 'z)" where
  "unpack4 PyNone = Inl TypeError"
| "unpack4 (PyTuple4 new_budgets norma allocation excess) = Inr (new_budgets, norma, allocation, excess)"

text \<open>
  The \<^verbatim>\<open>while norma:\<close> loop. It has no bound, so not returning is the value \<open>None\<close> of
  the outer \<open>option\<close>. The inner \<open>option\<close> is the Python result: \<open>Some allocation\<close> from
  the \<^verbatim>\<open>return allocation\<close>, or \<open>None\<close> where the function would fall off its end.
  The expression \<^verbatim>\<open>prices + delta * excess_demand\<close> depends on the run-time type of the
  value the optimizer hands back; it is the parameter \<open>update_prices\<close>.
\<close>

partial_function (option) price_loop ::
  "(int list list list \<Rightarrow> Instance \<Rightarrow> rat container \<Rightarrow> EFTBStatus \<Rightarrow> rat container \<Rightarrow> error + 'r) \<Rightarrow>
   (rat container \<Rightarrow> rat \<Rightarrow> 'z \<Rightarrow> error + rat container) \<Rightarrow>
   Instance \<Rightarrow> rat container \<Rightarrow> rat \<Rightarrow> rat \<Rightarrow> EFTBStatus \<Rightarrow> rat container \<Rightarrow> rat \<Rightarrow>
   (error + 'a option) option" where
  "price_loop optimize_model update_prices inst initial_budgets delta epsilon t prices norma =
     (if norma = 0 then Some (Inr None)
      else
        (case find_budget_perturbation optimize_model initial_budgets epsilon delta prices inst t of
           Inl e \<Rightarrow> Some (Inl e)
         | Inr result \<Rightarrow>
             (case unpack4 (result :: (rat container, 'a, 'z) pyresult) of
                Inl e \<Rightarrow> Some (Inl e)
              | Inr (new_budgets, norma', allocation, excess) \<Rightarrow>
                  if norma' = 0 then Some (Inr (Some allocation))
                  else
                    (case update_prices prices delta excess of
                       Inl e \<Rightarrow> Some (Inl e)
                     | Inr prices' \<Rightarrow>
                         price_loop optimize_model update_prices inst initial_budgets delta
                           epsilon t prices' norma'))))"

declare price_loop.simps [code]

text \<open>
  \<^verbatim>\<open>prices = [0] * instance.num_of_items; norma = 1; while norma: ...\<close>. The initial
  \<^verbatim>\<open>allocation\<close> matrix of zeros is overwritten before it is read.
\<close>

definition find_ACEEI_with_EFTB ::
  "(int list list list \<Rightarrow> Instance \<Rightarrow> rat container \<Rightarrow> EFTBStatus \<Rightarrow> rat container \<Rightarrow> error + 'r) \<Rightarrow>
   (rat container \<Rightarrow> rat \<Rightarrow> 'z \<Rightarrow> error + rat container) \<Rightarrow>
   Instance \<Rightarrow> rat container \<Rightarrow> rat \<Rightarrow> rat \<Rightarrow> EFTBStatus \<Rightarrow> (error + 'a option) option" where
  "find_ACEEI_with_EFTB optimize_model update_prices inst initial_budgets delta epsilon t =
     price_loop optimize_model update_prices inst initial_budgets delta epsilon t
       (PyList (replicate (num_of_items inst) 0)) 1"

section \<open>Example inputs\<close>

text \<open>The instance of the doctest of \<^verbatim>\<open>find_different_budgets\<close>, with an allocation and prices.\<close>

definition alice_bob :: Instance where
  "alice_bob = \<lparr>agents = [StrKey ''Alice'', StrKey ''Bob''], agent_capacity = (\<lambda>_. 2),
     num_of_agents = 2, num_of_items = 3,
     item_capacity = (\<lambda>item. if item = StrKey ''x'' then 1 else 2),
     agent_capacities' = [(StrKey ''Alice'', 2), (StrKey ''Bob'', 2)],
     item_capacities' = [(StrKey ''x'', 1), (StrKey ''y'', 2), (StrKey ''z'', 2)],
     valuations' = [(StrKey ''Alice'', [(StrKey ''x'', 5), (StrKey ''y'', 5), (StrKey ''z'', 1)]),
                    (StrKey ''Bob'', [(StrKey ''x'', 4), (StrKey ''y'', 6), (StrKey ''z'', 4)])]\<rparr>"

definition alloc1 :: "int list list" where
  "alloc1 = [[1, 0, 1], [1, 1, 0]]"

definition prices1 :: "rat container" where
  "prices1 = PyList [0, 1, 0]"

definition alice_bob_budgets :: "rat container" where
  "alice_bob_budgets = PyDict [(StrKey ''Alice'', 5), (StrKey ''Bob'', 4)]"

definition c123_prices :: "rat container" where
  "c123_prices = PyDict [(StrKey ''c1'', 1), (StrKey ''c2'', 2), (StrKey ''c3'', 3)]"

text \<open>The first doctest of \<^verbatim>\<open>find_ACEEI_with_EFTB\<close>, its budgets given per agent.\<close>

definition avi_beni :: Instance where
  "avi_beni = \<lparr>agents = [StrKey ''avi'', StrKey ''beni''], agent_capacity = (\<lambda>_. 2),
     num_of_agents = 2, num_of_items = 3,
     item_capacity = (\<lambda>item. if item = StrKey ''z'' then 2 else 1),
     agent_capacities' = [(StrKey ''avi'', 2), (StrKey ''beni'', 2)],
     item_capacities' = [(StrKey ''x'', 1), (StrKey ''y'', 1), (StrKey ''z'', 2)],
     valuations' = [(StrKey ''avi'', [(StrKey ''x'', 1), (StrKey ''y'', 2), (StrKey ''z'', 4)]),
                    (StrKey ''beni'', [(StrKey ''x'', 2), (StrKey ''y'', 3), (StrKey ''z'', 1)])]\<rparr>"

definition avi_beni_budgets :: "rat container" where
  "avi_beni_budgets = PyDict [(StrKey ''avi'', 2), (StrKey ''beni'', 3)]"

text \<open>Two agents of capacities 2 and 1, and two items priced 1 and 2.\<close>

definition two_capacities :: Instance where
  "two_capacities = \<lparr>agents = [StrKey ''A'', StrKey ''B''],
     agent_capacity = (\<lambda>student. if student = StrKey ''A'' then 2 else 1),
     num_of_agents = 2, num_of_items = 2, item_capacity = (\<lambda>_. 1),
     agent_capacities' = [(StrKey ''A'', 2), (StrKey ''B'', 1)],
     item_capacities' = [(StrKey ''c1'', 1), (StrKey ''c2'', 1)],
     valuations' = [(StrKey ''A'', [(StrKey ''c1'', 1), (StrKey ''c2'', 1)]),
                    (StrKey ''B'', [(StrKey ''c1'', 1), (StrKey ''c2'', 1)])]\<rparr>"

definition two_capacities_budgets :: "rat container" where
  "two_capacities_budgets = PyDict [(StrKey ''A'', 3), (StrKey ''B'', 3)]"

definition c12_prices :: "rat container" where
  "c12_prices = PyDict [(StrKey ''c1'', 1), (StrKey ''c2'', 2)]"

text \<open>The sums of between 1 and \<open>capacity\<close> of the prices \<open>vs\<close>, each item taken at most once.\<close>

definition capacity_sums :: "rat list \<Rightarrow> int \<Rightarrow> rat set" where
  "capacity_sums vs capacity = (\<Union>r\<in>set (range1 capacity). set (map sum_list (combinations vs r)))"

text \<open>
  An instance whose agents and items are named by their indices, with prices that no
  candidate budget affords.
\<close>

definition indexed :: Instance where
  "indexed = \<lparr>agents = [IntKey 0, IntKey 1], agent_capacity = (\<lambda>_. 2),
     num_of_agents = 2, num_of_items = 3,
     item_capacity = (\<lambda>item. if item = IntKey 2 then 2 else 1),
     agent_capacities' = [(IntKey 0, 2), (IntKey 1, 2)],
     item_capacities' = [(IntKey 0, 1), (IntKey 1, 1), (IntKey 2, 2)],
     valuations' = [(IntKey 0, [(IntKey 0, 1), (IntKey 1, 2), (IntKey 2, 4)]),
                    (IntKey 1, [(IntKey 0, 2), (IntKey 1, 3), (IntKey 2, 1)])]\<rparr>"

definition indexed_budgets :: "rat container" where
  "indexed_budgets = PyDict [(IntKey 0, 3), (IntKey 1, 4)]"

definition indexed_prices :: "rat container" where
  "indexed_prices = PyDict [(IntKey 0, 10), (IntKey 1, 10), (IntKey 2, 10)]"

text \<open>An instance with three items and no agent.\<close>

definition no_agents :: Instance where
  "no_agents = \<lparr>agents = [], agent_capacity = (\<lambda>_. 2),
     num_of_agents = 0, num_of_items = 3,
     item_capacity = (\<lambda>item. if item = StrKey ''z'' then 2 else 1),
     agent_capacities' = [],
     item_capacities' = [(StrKey ''x'', 1), (StrKey ''y'', 1), (StrKey ''z'', 2)],
     valuations' = []\<rparr>"

text \<open>
  Two optimizers, one returning \<^verbatim>\<open>None\<close> and one raising, and the component-wise price
  update \<open>prices[i] + delta * excess_demand[i]\<close> on lists.
\<close>

definition optimizer_none ::
  "int list list list \<Rightarrow> Instance \<Rightarrow> rat container \<Rightarrow> EFTBStatus \<Rightarrow> rat container \<Rightarrow> error + unit" where
  "optimizer_none a inst prices t initial_budgets = Inr ()"

definition failing_optimizer ::
  "int list list list \<Rightarrow> Instance \<Rightarrow> rat container \<Rightarrow> EFTBStatus \<Rightarrow> rat container \<Rightarrow> error + unit" where
  "failing_optimizer a inst prices t initial_budgets = Inl SolverError"

definition componentwise :: "rat container \<Rightarrow> rat \<Rightarrow> rat list \<Rightarrow> error + rat container" where
  "componentwise prices delta excess =
     (case prices of
        PyList ps \<Rightarrow> Inr (PyList (map2 (\<lambda>p z. p + delta * z) ps excess))
      | PyDict d \<Rightarrow> Inl TypeError)"

section \<open>The excess demand\<close>

text \<open>
  The comprehension of \<open>clipped_excess_demand\<close> clips any vector \<open>z\<close> as intended, entry by
  entry, wherever the price vector has an entry.
\<close>

lemma clip_loop_ok:
  "\<forall>i\<in>set idxs. subscript prices (IntKey (int i)) = Inr (p i) \<Longrightarrow>
   clip_loop prices z idxs = Inr (map (\<lambda>i. if p i = 0 then max 0 (z ! i) else z ! i) idxs)"
  by (induction idxs) auto

text \<open>
  \<open>excess_demand\<close> subscripts the accessor \<^verbatim>\<open>instance.item_capacity\<close> for the first
  course, after summing its column: on an instance with an item it raises, whatever the
  allocation is.
\<close>

lemma excess_demand_raises:
  "0 < num_of_items inst \<Longrightarrow> \<exists>e. excess_demand inst initial_budgets prices allocation = Inl e"
  by (cases "num_of_items inst")
     (auto simp: excess_demand_def upt_conv_Cons subscript_function_def
           simp del: upt_Suc split: sum.splits)

text \<open>
  Claim C6. On the instance of the doctest of \<open>find_different_budgets\<close> and the allocation
  \<open>[[1, 0, 1], [1, 1, 0]]\<close>, where the vector of the numbers of assigned agents minus the
  capacities is \<open>[1, -1, -1]\<close>, \<open>excess_demand\<close> returns no vector: the subscript of
  \<^verbatim>\<open>instance.item_capacity\<close> raises \<^verbatim>\<open>TypeError\<close>.
\<close>

theorem excess_demand_subscripts_accessor:
  "excess_demand alice_bob alice_bob_budgets prices1 alloc1 = Inl TypeError"
  by code_simp

text \<open>
  Claim C7. \<open>clipped_excess_demand\<close> starts by calling \<open>excess_demand\<close>, whose exception
  it lets through: on the same instance and allocation with the prices \<open>[0, 1, 0]\<close>, where
  the clipped vector is \<open>[1, -1, 0]\<close>, it raises \<^verbatim>\<open>TypeError\<close>.
\<close>

theorem clipped_excess_demand_raises:
  "clipped_excess_demand alice_bob alice_bob_budgets prices1 alloc1 = Inl TypeError"
  by code_simp

section \<open>Properties of the candidate budgets\<close>

lemma strict_sorted_le_last:
  "sorted_wrt (<) (row :: rat list) \<Longrightarrow> x \<in> set row \<Longrightarrow> x \<le> last row"
  by (induction row) (auto simp: less_imp_le)

lemma row_loop_sorted:
  "sorted_wrt (<) row \<Longrightarrow> row \<noteq> [] \<Longrightarrow> last row = mn \<Longrightarrow>
   sorted_wrt (<) (row_loop mk mx mn row xs)"
proof (induction mk mx mn row xs rule: row_loop.induct)
  case (1 mk mx mn row)
  then show ?case by simp
next
  case (2 mk mx mn row s rest)
  have app: "sorted_wrt (<) (row @ [s])" if "mn < s"
    using that "2.prems" strict_sorted_le_last[of row]
    by (fastforce simp: sorted_wrt_append)
  show ?case using 2 app by auto
qed

lemma row_loop_hd:
  "row \<noteq> [] \<Longrightarrow> row_loop mk mx mn row xs \<noteq> [] \<and> hd (row_loop mk mx mn row xs) = hd row"
  by (induction mk mx mn row xs rule: row_loop.induct) auto

lemma row_loop_upper:
  "\<forall>x\<in>set row. x \<le> B \<Longrightarrow> mx \<le> B \<Longrightarrow> \<forall>x\<in>set (row_loop mk mx mn row xs). x \<le> B"
  by (induction mk mx mn row xs rule: row_loop.induct) auto

lemma row_loop_appended:
  "\<exists>ys. row_loop mk mx mn row xs = row @ ys \<and> (\<forall>y\<in>set ys. y \<le> mx)"
proof (induction mk mx mn row xs rule: row_loop.induct)
  case (1 mk mx mn row)
  then show ?case by simp
next
  case (2 mk mx mn row s rest)
  show ?case
  proof (cases "of_nat (length row) + 1 > mk")
    case True
    then show ?thesis by simp
  next
    case False
    show ?thesis
    proof (cases "mn < s \<and> s \<le> mx")
      case True
      from "2.IH"(1)[OF False True] obtain ys where
        "row_loop mk mx s (row @ [s]) rest = (row @ [s]) @ ys" "\<forall>y\<in>set ys. y \<le> mx"
        by blast
      then have "row_loop mk mx mn row (s # rest) = row @ (s # ys) \<and> (\<forall>y\<in>set (s # ys). y \<le> mx)"
        using False True by simp
      then show ?thesis by blast
    next
      case no: False
      from "2.IH"(2)[OF False no] show ?thesis using False no by auto
    qed
  qed
qed

lemma row_loop_length:
  "of_nat (length row) \<le> K \<Longrightarrow> mk \<le> K \<Longrightarrow> of_nat (length (row_loop mk mx mn row xs)) \<le> K"
  by (induction mk mx mn row xs rule: row_loop.induct) auto

lemma students_loop_rows:
  "students_loop inst ib eps mk prices studs S db = Inr db' \<Longrightarrow> map_of db' k = Some row \<Longrightarrow>
   map_of db k = Some row \<or>
   (\<exists>b xs. subscript ib k = Inr b \<and> row = row_loop mk (b + eps) (b - eps) [b - eps] xs)"
proof (induction studs arbitrary: S db)
  case Nil
  then show ?case by simp
next
  case (Cons s studs)
  from Cons.prems(1) obtain S' b where
    S': "add_combination_sums prices (range1 (agent_capacity inst s)) S = Inr S'"
    and b: "subscript ib s = Inr b"
    and rest: "students_loop inst ib eps mk prices studs S'
        (AList.update s (row_loop mk (b + eps) (b - eps) [b - eps] (sorted_list_of_set S')) db) = Inr db'"
    by (auto split: sum.splits)
  from Cons.IH[OF rest Cons.prems(2)] show ?case
    using b by (auto simp: update_conv' split: if_splits)
qed

lemma students_loop_keys:
  "students_loop inst ib eps mk prices studs S db = Inr db' \<Longrightarrow>
   k \<in> set studs \<or> map_of db k \<noteq> None \<Longrightarrow> map_of db' k \<noteq> None"
proof (induction studs arbitrary: S db)
  case Nil
  then show ?case by simp
next
  case (Cons s studs)
  from Cons.prems(1) obtain S' b where
    rest: "students_loop inst ib eps mk prices studs S'
        (AList.update s (row_loop mk (b + eps) (b - eps) [b - eps] (sorted_list_of_set S')) db) = Inr db'"
    by (auto split: sum.splits)
  show ?case
    by (rule Cons.IH[OF rest]) (use Cons.prems(2) in \<open>auto simp: update_conv'\<close>)
qed

lemma find_different_budgets_row:
  assumes "find_different_budgets inst ib eps delta prices = Inr db"
    and "student \<in> set (agents inst)"
  shows "delta \<noteq> 0 \<and> (\<exists>b xs. subscript ib student = Inr b \<and>
           map_of db student =
             Some (row_loop (2 * eps / delta + 1) (b + eps) (b - eps) [b - eps] xs))"
proof -
  have d: "delta \<noteq> 0" using assms(1) by (auto simp: find_different_budgets_def split: if_splits)
  then have loop: "students_loop inst ib eps (2 * eps / delta + 1) prices (agents inst) {} [] = Inr db"
    using assms(1) by (simp add: find_different_budgets_def)
  from students_loop_keys[OF loop, of student] assms(2)
  obtain row where row: "map_of db student = Some row" by auto
  from students_loop_rows[OF loop row] d row show ?thesis by auto
qed

text \<open>
  Claim C3 as stated fails for a negative \<open>epsilon\<close>, which the code accepts. On the
  doctest of \<open>find_different_budgets\<close> with \<open>epsilon = -2\<close>, Alice, whose initial budget
  is 5, is given the list \<open>[7]\<close>, and 7 lies above \<open>5 + epsilon = 3\<close>.
\<close>

theorem negative_epsilon_outside_window:
  "find_different_budgets alice_bob alice_bob_budgets (- 2) (1/2) c123_prices =
     Inr [(StrKey ''Alice'', [7]), (StrKey ''Bob'', [6])] \<and>
   subscript alice_bob_budgets (StrKey ''Alice'') = Inr 5 \<and>
   \<not> (7 :: rat) \<le> 5 + (- 2)"
  by code_simp

text \<open>
  Claim C3, as amended. For every agent, the list of candidate budgets that
  \<open>find_different_budgets\<close> returns is strictly increasing, its first element is exactly
  the agent's initial budget minus \<open>epsilon\<close>, and every element after the first is at most
  the initial budget plus \<open>epsilon\<close>; for \<open>epsilon \<ge> 0\<close> the first element is too, so that
  all candidates lie in the window from the initial budget minus \<open>epsilon\<close> to the initial
  budget plus \<open>epsilon\<close>.
\<close>

theorem find_different_budgets_window:
  assumes "find_different_budgets inst initial_budgets epsilon delta prices = Inr different_budgets"
    and "student \<in> set (agents inst)"
  shows "\<exists>b row. subscript initial_budgets student = Inr b \<and>
           map_of different_budgets student = Some row \<and>
           sorted_wrt (<) row \<and> row \<noteq> [] \<and> hd row = b - epsilon \<and>
           (\<forall>x\<in>set (tl row). x \<le> b + epsilon) \<and>
           (0 \<le> epsilon \<longrightarrow> (\<forall>x\<in>set row. b - epsilon \<le> x \<and> x \<le> b + epsilon))"
proof -
  from find_different_budgets_row[OF assms] obtain b xs where
    b: "subscript initial_budgets student = Inr b"
    and row: "map_of different_budgets student =
      Some (row_loop (2 * epsilon / delta + 1) (b + epsilon) (b - epsilon) [b - epsilon] xs)"
    by auto
  let ?row = "row_loop (2 * epsilon / delta + 1) (b + epsilon) (b - epsilon) [b - epsilon] xs"
  have s: "sorted_wrt (<) ?row" by (rule row_loop_sorted) simp_all
  have h: "?row \<noteq> []" "hd ?row = b - epsilon"
    using row_loop_hd[of "[b - epsilon]"] by simp_all
  have lower: "b - epsilon \<le> x" if "x \<in> set ?row" for x
  proof -
    obtain ys where ys: "?row = (b - epsilon) # ys" using h by (cases ?row) auto
    show ?thesis using s that unfolding ys by (auto simp: less_imp_le)
  qed
  have upper: "\<forall>x\<in>set ?row. x \<le> b + epsilon" if "0 \<le> epsilon"
    by (rule row_loop_upper) (use that in simp_all)
  have later: "\<forall>x\<in>set (tl ?row). x \<le> b + epsilon"
    using row_loop_appended[of "2 * epsilon / delta + 1" "b + epsilon" "b - epsilon" "[b - epsilon]" xs]
    by auto
  show ?thesis using b row s h lower upper later by blast
qed

theorem find_different_budgets_window_witness:
  "find_different_budgets alice_bob alice_bob_budgets 2 (1/2) c123_prices =
     Inr [(StrKey ''Alice'', [3, 4, 5]), (StrKey ''Bob'', [2, 3, 4, 5])] \<and>
   StrKey ''Bob'' \<in> set (agents alice_bob) \<and>
   (\<exists>b row. subscript alice_bob_budgets (StrKey ''Bob'') = Inr b \<and>
      map_of [(StrKey ''Alice'', [3, 4, 5]), (StrKey ''Bob'', [2, 3, 4, 5])] (StrKey ''Bob'') = Some row \<and>
      sorted_wrt (<) row \<and> row \<noteq> [] \<and> hd row = b - 2 \<and>
      (\<forall>x\<in>set row. b - 2 \<le> x \<and> x \<le> b + 2))"
proof -
  have h1: "find_different_budgets alice_bob alice_bob_budgets 2 (1/2) c123_prices =
     Inr [(StrKey ''Alice'', [3, 4, 5]), (StrKey ''Bob'', [2, 3, 4, 5])]"
    by code_simp
  have h2: "StrKey ''Bob'' \<in> set (agents alice_bob)"
    by (simp add: alice_bob_def)
  have h3: "(0::rat) \<le> 2" by simp
  from find_different_budgets_window [OF h1 h2] h3 have
    "\<exists>b row. subscript alice_bob_budgets (StrKey ''Bob'') = Inr b \<and>
      map_of [(StrKey ''Alice'', [3, 4, 5]), (StrKey ''Bob'', [2, 3, 4, 5])] (StrKey ''Bob'') = Some row \<and>
      sorted_wrt (<) row \<and> row \<noteq> [] \<and> hd row = b - 2 \<and>
      (\<forall>x\<in>set row. b - 2 \<le> x \<and> x \<le> b + 2)"
    by blast
  with h1 h2 show ?thesis by blast
qed

text \<open>
  Claim C4. For \<open>delta > 0\<close> and \<open>epsilon \<ge> 0\<close>, the list of candidate budgets of every
  agent has at most \<open>2 * epsilon / delta + 1\<close> entries.
\<close>

theorem find_different_budgets_bounded:
  assumes "find_different_budgets inst initial_budgets epsilon delta prices = Inr different_budgets"
    and "0 < delta" and "0 \<le> epsilon"
    and "student \<in> set (agents inst)"
  shows "\<exists>row. map_of different_budgets student = Some row \<and>
           of_nat (length row) \<le> 2 * epsilon / delta + 1"
proof -
  from find_different_budgets_row[OF assms(1,4)] obtain b xs where
    row: "map_of different_budgets student =
      Some (row_loop (2 * epsilon / delta + 1) (b + epsilon) (b - epsilon) [b - epsilon] xs)"
    by auto
  have "0 \<le> 2 * epsilon / delta" using assms(2,3) by simp
  then have "of_nat (length (row_loop (2 * epsilon / delta + 1) (b + epsilon) (b - epsilon) [b - epsilon] xs))
      \<le> 2 * epsilon / delta + 1"
    by (intro row_loop_length) simp_all
  then show ?thesis using row by blast
qed

theorem find_different_budgets_bounded_witness:
  "find_different_budgets alice_bob alice_bob_budgets 2 (1/2) c123_prices =
     Inr [(StrKey ''Alice'', [3, 4, 5]), (StrKey ''Bob'', [2, 3, 4, 5])] \<and>
   (0::rat) < 1/2 \<and> (0::rat) \<le> 2 \<and> StrKey ''Alice'' \<in> set (agents alice_bob) \<and>
   (\<exists>row. map_of [(StrKey ''Alice'', [3, 4, 5 :: rat]), (StrKey ''Bob'', [2, 3, 4, 5])] (StrKey ''Alice'') = Some row \<and>
      (of_nat (length row) :: rat) \<le> 2 * 2 / (1/2) + 1)"
proof -
  have h1: "find_different_budgets alice_bob alice_bob_budgets 2 (1/2) c123_prices =
     Inr [(StrKey ''Alice'', [3, 4, 5]), (StrKey ''Bob'', [2, 3, 4, 5])]"
    by code_simp
  have h2: "(0::rat) < 1/2" by simp
  have h3: "(0::rat) \<le> 2" by simp
  have h4: "StrKey ''Alice'' \<in> set (agents alice_bob)"
    by (simp add: alice_bob_def)
  from find_different_budgets_bounded [OF h1 h2 h3 h4] h1 h2 h3 h4 show ?thesis by blast
qed

section \<open>Where the code leaves its description\<close>

text \<open>
  Claim C5. The set of combination sums is shared by all agents, so an agent of capacity 1
  that follows an agent of capacity 2 is given the candidate budget 3, which is the sum of
  two prices and not of one: with prices 1 and 2, budgets 3 and \<open>epsilon = 1\<close>, agent
  \<open>B\<close> receives the list \<open>[2, 3]\<close>.
\<close>

theorem shared_sums_cross_capacities:
  "find_different_budgets two_capacities two_capacities_budgets 1 (1/2) c12_prices =
     Inr [(StrKey ''A'', [2, 3]), (StrKey ''B'', [2, 3])] \<and>
   3 \<notin> capacity_sums [1, 2] (agent_capacity two_capacities (StrKey ''B''))"
  by code_simp

text \<open>
  Claim C2. The utility of a combination is never computed: as soon as a combination is
  affordable, \<open>student_budget_per_bundle\<close> reads the unassigned variable
  \<^verbatim>\<open>utility_combination\<close> and raises. On the budgets of the doctest of
  \<open>find_different_budgets\<close> it emits no vector at all.
\<close>

theorem student_budget_per_bundle_unbound:
  "student_budget_per_bundle (PyList [[3, 4, 5], [2, 3, 4, 5]]) (PyList [1, 2, 3]) alice_bob =
     Inl UnboundLocalError"
  by code_simp

text \<open>
  Claim C1. On the first doctest of \<open>find_ACEEI_with_EFTB\<close> the loop raises in its first
  iteration, whatever the optimizer and the price update are: no norm is reported, the
  prices are never updated and nothing is returned.
\<close>

theorem first_doctest_raises:
  "(find_ACEEI_with_EFTB optimize_model update_prices avi_beni avi_beni_budgets (1/2) (1/2) NO_EF_TB
      :: (error + int list list option) option) = Some (Inl AttributeError)"
  by code_simp

section \<open>The price loop never returns an allocation\<close>

lemma find_budget_perturbation_returns_None:
  "find_budget_perturbation optimize_model initial_budgets epsilon delta prices inst t = Inr r \<Longrightarrow>
   r = PyNone"
  by (auto simp: find_budget_perturbation_def split: sum.splits)

lemma price_loop_raises:
  "norma \<noteq> 0 \<Longrightarrow>
   \<exists>e. price_loop optimize_model update_prices inst initial_budgets delta epsilon t prices norma =
     Some (Inl e)"
  by (subst price_loop.simps)
     (auto split: sum.splits dest!: find_budget_perturbation_returns_None)

text \<open>
  Claim C10. Whenever \<open>find_budget_perturbation\<close> returns, it returns \<^verbatim>\<open>None\<close>, which
  the four-way unpacking rejects with a \<^verbatim>\<open>TypeError\<close>; so for every input
  \<open>find_ACEEI_with_EFTB\<close> ends its first iteration with an exception and never reaches
  \<^verbatim>\<open>return allocation\<close>.
\<close>

theorem find_ACEEI_with_EFTB_never_returns:
  "(\<forall>r. find_budget_perturbation optimize_model initial_budgets epsilon delta prices inst t = Inr r \<longrightarrow>
        r = PyNone \<and> unpack4 r = Inl TypeError) \<and>
   (\<exists>e. find_ACEEI_with_EFTB optimize_model update_prices inst initial_budgets delta epsilon t =
        Some (Inl e))"
proof
  show "\<forall>r. find_budget_perturbation optimize_model initial_budgets epsilon delta prices inst t = Inr r \<longrightarrow>
        r = PyNone \<and> unpack4 r = Inl TypeError"
    using find_budget_perturbation_returns_None by fastforce
  show "\<exists>e. find_ACEEI_with_EFTB optimize_model update_prices inst initial_budgets delta epsilon t =
        Some (Inl e)"
    unfolding find_ACEEI_with_EFTB_def by (rule price_loop_raises) simp
qed

theorem find_ACEEI_with_EFTB_never_returns_witness:
  "find_budget_perturbation optimizer_none indexed_budgets 1 (1/2) indexed_prices indexed NO_EF_TB =
     Inr (PyNone :: (unit, unit, unit) pyresult) \<and>
   unpack4 (PyNone :: (unit, unit, unit) pyresult) = Inl TypeError \<and>
   (\<exists>e. (find_ACEEI_with_EFTB optimizer_none componentwise indexed indexed_budgets (1/2) 1 NO_EF_TB
      :: (error + int list list option) option) = Some (Inl e))"
proof -
  have h: "find_budget_perturbation optimizer_none indexed_budgets 1 (1/2) indexed_prices indexed NO_EF_TB =
     Inr (PyNone :: (unit, unit, unit) pyresult)"
    by code_simp
  have a: "unpack4 (PyNone :: (unit, unit, unit) pyresult) = Inl TypeError"
    using find_ACEEI_with_EFTB_never_returns [THEN conjunct1, rule_format, OF h] by simp
  have b: "\<exists>e. (find_ACEEI_with_EFTB optimizer_none componentwise indexed indexed_budgets (1/2) 1 NO_EF_TB
      :: (error + int list list option) option) = Some (Inl e)"
    by (rule find_ACEEI_with_EFTB_never_returns [THEN conjunct2])
  show ?thesis using h a b by blast
qed

lemma students_loop_error_independent:
  "students_loop inst ib eps mk prices studs S db = Inl e \<longleftrightarrow>
   students_loop inst ib eps' mk' prices studs S db' = Inl e"
proof (induction studs arbitrary: S db db')
  case Nil
  then show ?case by simp
next
  case (Cons s studs)
  show ?case
  proof (cases "add_combination_sums prices (range1 (agent_capacity inst s)) S")
    case (Inl e1)
    then show ?thesis by simp
  next
    case (Inr S')
    show ?thesis
    proof (cases "subscript ib s")
      case (Inl e2)
      then show ?thesis using Inr by simp
    next
      case b: (Inr b)
      show ?thesis using Inr b Cons.IH by simp
    qed
  qed
qed

text \<open>
  Claim C8, as amended. Neither parameter is validated. With \<open>delta = 0\<close> the call fails
  with \<^verbatim>\<open>ZeroDivisionError\<close> for every instance, budget table, \<open>epsilon\<close>, optimizer and
  mode, that is before any budget is enumerated. With \<open>delta \<noteq> 0\<close> the budget enumeration
  raises an error only where it raises the same error for every other \<open>delta \<noteq> 0\<close> and
  every other \<open>epsilon\<close>: a negative \<open>delta\<close> or \<open>epsilon\<close> is not rejected.
\<close>

theorem parameters_not_validated:
  "find_ACEEI_with_EFTB optimize_model update_prices inst initial_budgets 0 epsilon t =
     Some (Inl ZeroDivisionError) \<and>
   (delta \<noteq> 0 \<longrightarrow> delta' \<noteq> 0 \<longrightarrow>
      (find_different_budgets inst initial_budgets epsilon delta prices = Inl e \<longleftrightarrow>
       find_different_budgets inst initial_budgets epsilon' delta' prices = Inl e))"
proof
  show "find_ACEEI_with_EFTB optimize_model update_prices inst initial_budgets 0 epsilon t =
     Some (Inl ZeroDivisionError)"
    unfolding find_ACEEI_with_EFTB_def
    by (subst price_loop.simps)
       (simp add: find_budget_perturbation_def find_different_budgets_def)
  show "delta \<noteq> 0 \<longrightarrow> delta' \<noteq> 0 \<longrightarrow>
      (find_different_budgets inst initial_budgets epsilon delta prices = Inl e \<longleftrightarrow>
       find_different_budgets inst initial_budgets epsilon' delta' prices = Inl e)"
    using students_loop_error_independent by (simp add: find_different_budgets_def)
qed

theorem parameters_not_validated_witness:
  "(- 1/2 :: rat) \<noteq> 0 \<and> (1/2 :: rat) \<noteq> 0 \<and>
   find_different_budgets avi_beni avi_beni_budgets (1/2) (1/2) (PyList [0, 0, 0]) = Inl AttributeError \<and>
   find_different_budgets avi_beni avi_beni_budgets (- 1/2) (- 1/2) (PyList [0, 0, 0]) = Inl AttributeError \<and>
   (find_ACEEI_with_EFTB optimizer_none componentwise avi_beni avi_beni_budgets 0 (1/2) NO_EF_TB
      :: (error + int list list option) option) = Some (Inl ZeroDivisionError)"
proof -
  have h1: "(- 1/2 :: rat) \<noteq> 0" by simp
  have h2: "(1/2 :: rat) \<noteq> 0" by simp
  have h3: "find_different_budgets avi_beni avi_beni_budgets (1/2) (1/2) (PyList [0, 0, 0]) = Inl AttributeError"
    by code_simp
  have a: "(find_ACEEI_with_EFTB optimizer_none componentwise avi_beni avi_beni_budgets 0 (1/2) NO_EF_TB
      :: (error + int list list option) option) = Some (Inl ZeroDivisionError)"
    by (rule parameters_not_validated [THEN conjunct1])
  have b: "find_different_budgets avi_beni avi_beni_budgets (- 1/2) (- 1/2) (PyList [0, 0, 0]) = Inl AttributeError"
    using parameters_not_validated [THEN conjunct2, rule_format, OF h2 h1] h3 by blast
  show ?thesis using h1 h2 h3 a b by blast
qed

text \<open>
  Claim C8 as stated fails. With \<open>delta = -1/2\<close> and \<open>epsilon = -1/2\<close> the outcome of
  \<open>find_ACEEI_with_EFTB\<close> on the instance without agents is the optimizer's own error, or
  the \<^verbatim>\<open>TypeError\<close> of the unpacking when the optimizer returns: the optimizer has been
  called, after the budget enumeration and the bundle maximization. And
  \<open>find_different_budgets\<close> returns budget lists for \<open>delta = -1/2\<close> and \<open>epsilon = -2\<close>.
\<close>

theorem negative_parameters_counterexample:
  "(find_ACEEI_with_EFTB failing_optimizer componentwise no_agents (PyDict []) (- 1/2) (- 1/2) NO_EF_TB
      :: (error + int list list option) option) = Some (Inl SolverError) \<and>
   (find_ACEEI_with_EFTB optimizer_none componentwise no_agents (PyDict []) (- 1/2) (- 1/2) NO_EF_TB
      :: (error + int list list option) option) = Some (Inl TypeError) \<and>
   find_different_budgets alice_bob alice_bob_budgets (- 2) (- 1/2) c123_prices =
     Inr [(StrKey ''Alice'', [7]), (StrKey ''Bob'', [6])]"
  by code_simp

end
